theory Spec2Isabelle
  imports Main "HOL-Library.Sublist"
begin

section \<open>Data model\<close>

text \<open>
  A customer is one row of the CSV input as \<open>csv.DictReader\<close> yields it: the
  header names paired with the row's cells, both text, in header order. The
  association list keeps that order (it is the order \<open>json.dump\<close> writes the
  fields in); \<open>dict_get\<close> is Python's \<open>c.get(key)\<close>, with \<open>None\<close> for a missing
  key. A \<open>char\<close> is a code point below 256; text with code points beyond
  that range is not part of this model.
\<close>

type_synonym customer = "(string \<times> string) list"

definition dict_get :: "customer \<Rightarrow> string \<Rightarrow> string option" where
  "dict_get c k = map_of c k"

text \<open>The only exception the filter can raise: \<open>int(...)\<close> on an invalid literal.\<close>

datatype error = ValueError

section \<open>Python's \<open>int(str)\<close> in base 10\<close>

text \<open>
  \<open>int(s)\<close> skips leading whitespace, reads an optional sign, then at least one
  decimal digit, where single underscores may stand between digits, skips
  trailing whitespace and must then be at the end of the text. Text of more
  digits than the interpreter's limit is refused as well. Every refusal is a
  \<open>ValueError\<close>.
\<close>

text \<open>The C macro \<open>Py_ISSPACE\<close>: blank, tab, line feed, vertical tab, form feed, return.\<close>

definition Py_ISSPACE :: "char \<Rightarrow> bool" where
  "Py_ISSPACE ch \<longleftrightarrow>
     ch = CHR '' '' \<or> ch = CHR 0x09 \<or> ch = CHR 0x0A \<or> ch = CHR 0x0B \<or>
     ch = CHR 0x0C \<or> ch = CHR 0x0D"

text \<open>
  Before it parses, \<open>int\<close> replaces every Unicode whitespace character from
  code point 127 on by a blank; below 256 these are U+0085 and U+00A0. So the
  characters \<open>int\<close> skips as whitespace are those of \<open>Py_ISSPACE\<close> and these
  two. (The code points 0x1C to 0x1F, whitespace for \<open>str.isspace\<close>, are below
  127, stay as they are and are not skipped.)
\<close>

definition is_space :: "char \<Rightarrow> bool" where
  "is_space ch \<longleftrightarrow> Py_ISSPACE ch \<or> ch = CHR 0x85 \<or> ch = CHR 0xA0"

text \<open>
  The decimal digits below code point 256 are \<open>0\<close> to \<open>9\<close>; every other
  character from 127 on makes the literal invalid.
\<close>

definition is_digit :: "char \<Rightarrow> bool" where
  "is_digit ch \<longleftrightarrow> 48 \<le> (of_char ch :: nat) \<and> (of_char ch :: nat) \<le> 57"

definition digit_value :: "char \<Rightarrow> int" where
  "digit_value ch = int (of_char ch) - 48"

text \<open>
  \<open>sys.int_info.default_max_str_digits\<close>: \<open>int\<close> raises \<open>ValueError\<close> for text
  with more digits (underscores not counted, leading zeros counted). The
  program never changes the limit.
\<close>

definition max_str_digits :: nat where
  "max_str_digits = 4300"

text \<open>
  The digit loop: \<open>acc\<close> is the number read so far, \<open>digits\<close> the count of
  digits read so far, \<open>prev\<close> the previous character (initially NUL). It
  stops at the first character that is neither a digit nor an underscore and
  returns the rest of the text. Two underscores in a row and an underscore
  before the stop are errors.
\<close>

fun scan_digits :: "int \<Rightarrow> nat \<Rightarrow> char \<Rightarrow> string \<Rightarrow> error + (int \<times> nat \<times> string)" where
  "scan_digits acc digits prev [] =
     (if prev = CHR ''_'' then Inl ValueError else Inr (acc, digits, []))"
| "scan_digits acc digits prev (ch # rest) =
     (if is_digit ch then scan_digits (acc * 10 + digit_value ch) (digits + 1) ch rest
      else if ch = CHR ''_'' then
        (if prev = CHR ''_'' then Inl ValueError else scan_digits acc digits ch rest)
      else if prev = CHR ''_'' then Inl ValueError
      else Inr (acc, digits, ch # rest))"

definition py_int :: "string \<Rightarrow> error + int" where
  "py_int s =
     (let s1 = dropWhile is_space s;
          sign = (if s1 \<noteq> [] \<and> hd s1 = CHR ''-'' then - 1 else (1::int));
          s2 = (if s1 \<noteq> [] \<and> (hd s1 = CHR ''+'' \<or> hd s1 = CHR ''-'') then tl s1 else s1)
      in if s2 = [] \<or> \<not> is_digit (hd s2) then Inl ValueError
         else case scan_digits 0 0 (CHR 0x00) s2 of
                Inl e \<Rightarrow> Inl e
              | Inr (n, digits, rest) \<Rightarrow>
                  if dropWhile is_space rest \<noteq> [] then Inl ValueError
                  else if max_str_digits < digits then Inl ValueError
                  else Inr (sign * n))"

section \<open>\<open>filter_customers\<close>\<close>

text \<open>
  \<open>if country:\<close> and \<open>c.get('age') and ...\<close> test Python truthiness: \<open>None\<close> and
  the empty text are false, any other text is true.
\<close>

definition truthy :: "string option \<Rightarrow> bool" where
  "truthy v = (case v of None \<Rightarrow> False | Some s \<Rightarrow> s \<noteq> [])"

text \<open>The condition of the first comprehension: \<open>c.get('country') == country\<close>.\<close>

definition country_match :: "string \<Rightarrow> customer \<Rightarrow> bool" where
  "country_match country c \<longleftrightarrow> dict_get c ''country'' = Some country"

text \<open>
  The condition of the second comprehension:
  \<open>c.get('age') and int(c.get('age')) >= min_age\<close>. A missing or empty age is
  falsy and \<open>int\<close> is not called; otherwise \<open>int\<close> may raise.
\<close>

definition age_check :: "int \<Rightarrow> customer \<Rightarrow> error + bool" where
  "age_check min_age c =
     (if \<not> truthy (dict_get c ''age'') then Inr False
      else case dict_get c ''age'' of
             None \<Rightarrow> Inr False
           | Some s \<Rightarrow> (case py_int s of Inl e \<Rightarrow> Inl e | Inr n \<Rightarrow> Inr (min_age \<le> n)))"

text \<open>
  The second comprehension, record by record in input order; an exception
  raised for one record ends the whole comprehension.
\<close>

fun age_filter :: "int \<Rightarrow> customer list \<Rightarrow> error + customer list" where
  "age_filter min_age [] = Inr []"
| "age_filter min_age (c # cs) =
     (case age_check min_age c of
        Inl e \<Rightarrow> Inl e
      | Inr keep \<Rightarrow>
          (case age_filter min_age cs of
             Inl e \<Rightarrow> Inl e
           | Inr kept \<Rightarrow> Inr (if keep then c # kept else kept)))"

definition filter_customers ::
  "customer list \<Rightarrow> string option \<Rightarrow> int option \<Rightarrow> error + customer list" where
  "filter_customers customers country min_age =
     (let filtered = customers;
          filtered = (case country of
                        None \<Rightarrow> filtered
                      | Some x \<Rightarrow> if x \<noteq> [] then filter (country_match x) filtered
                                  else filtered)
      in case min_age of
           None \<Rightarrow> Inr filtered
         | Some m \<Rightarrow> age_filter m filtered)"

section \<open>\<open>process_command\<close>\<close>

text \<open>
  The parsed command line: \<open>--input\<close> and \<open>--output\<close> are required,
  \<open>--country\<close> and \<open>--min-age\<close> are \<open>None\<close> when not given
  (\<open>args.input\<close> and \<open>args.output\<close> are the fields \<open>input_path\<close> and
  \<open>output_path\<close>).
\<close>

record args =
  input_path :: string
  output_path :: string
  country :: "string option"
  min_age :: "int option"

text \<open>Python's \<open>str\<close> of an integer, as the f-strings format it.\<close>

fun str_nat :: "nat \<Rightarrow> string" where
  "str_nat n =
     (if n < 10 then [char_of (48 + n)]
      else str_nat (n div 10) @ [char_of (48 + n mod 10)])"

declare str_nat.simps [simp del]

definition str_int :: "int \<Rightarrow> string" where
  "str_int i = (if i < 0 then CHR ''-'' # str_nat (nat (- i)) else str_nat (nat i))"

text \<open>\<open>sep.join(xs)\<close>.\<close>

fun join :: "string \<Rightarrow> string list \<Rightarrow> string" where
  "join sep [] = []"
| "join sep [x] = x"
| "join sep (x # y # ys) = x @ sep @ join sep (y # ys)"

definition newline :: string where
  "newline = [CHR 0x0A]"

text \<open>
  \<open>process_command\<close> without its file access: \<open>customers\<close> is what
  \<open>load_customers(args.input)\<close> returned. The result is the text printed to
  standard output and either the list handed to \<open>save_results\<close> or the
  exception that left \<open>filter_customers\<close>, which nothing catches. The two
  \<open>if\<close>s that build \<open>filters\<close> test truthiness: \<open>None\<close>, the empty text
  and the number 0 are false.
\<close>

definition process_command :: "args \<Rightarrow> customer list \<Rightarrow> string \<times> (error + customer list)" where
  "process_command a customers =
     (let out = ''Loaded '' @ str_int (int (length customers)) @ '' customers from ''
                @ input_path a @ newline
      in case filter_customers customers (country a) (min_age a) of
           Inl e \<Rightarrow> (out, Inl e)
         | Inr filtered \<Rightarrow>
             (let out = out @ ''Filtered to '' @ str_int (int (length filtered))
                        @ '' customers'';
                  filters = [];
                  filters = (case country a of
                               None \<Rightarrow> filters
                             | Some x \<Rightarrow> if x \<noteq> [] then filters @ [''country='' @ x]
                                         else filters);
                  filters = (case min_age a of
                               None \<Rightarrow> filters
                             | Some m \<Rightarrow> if m \<noteq> 0 then filters @ [''min_age='' @ str_int m]
                                         else filters);
                  out = (if filters \<noteq> [] then out @ '' ('' @ join '', '' filters @ '')'' @ newline
                         else out @ newline)
              in (out @ ''Results saved to '' @ output_path a @ newline, Inr filtered)))"

section \<open>Notions used to state the properties\<close>

text \<open>The number a text of decimal digits denotes.\<close>

definition decimal :: "string \<Rightarrow> int" where
  "decimal ds = foldl (\<lambda>acc ch. acc * 10 + digit_value ch) 0 ds"

text \<open>
  Modelled from the spec: \<open>intersection_preserving_order\<close> is named in the
  conjunctivity property and defined nowhere in the code. It keeps the
  elements of the first list that occur in the second, in the first list's
  order.
\<close>

definition intersection_preserving_order :: "'a list \<Rightarrow> 'a list \<Rightarrow> 'a list" where
  "intersection_preserving_order xs ys = filter (\<lambda>x. x \<in> set ys) xs"

text \<open>The records of \<open>tests/test_main.py\<close>.\<close>

definition john :: customer where
  "john = [(''name'', ''John''), (''age'', ''25''), (''country'', ''USA'')]"

definition jane :: customer where
  "jane = [(''name'', ''Jane''), (''age'', ''30''), (''country'', ''Canada'')]"

definition bob :: customer where
  "bob = [(''name'', ''Bob''), (''age'', ''18''), (''country'', ''USA'')]"

definition alice :: customer where
  "alice = [(''name'', ''Alice''), (''age'', ''22''), (''country'', ''USA'')]"

text \<open>
  Further rows a CSV file can hold: ages that are no number, zero, empty,
  absent or padded with blanks, and a country in lower case.
\<close>

definition eve :: customer where
  "eve = [(''id'', ''3''), (''name'', ''Eve''), (''age'', ''thirty''), (''country'', ''USA'')]"

definition eva :: customer where
  "eva = [(''name'', ''Eva''), (''age'', ''thirty''), (''country'', ''Canada'')]"

definition ann :: customer where
  "ann = [(''name'', ''Ann''), (''age'', ''0'')]"

definition amy :: customer where
  "amy = [(''name'', ''Amy''), (''age'', ''30'')]"

definition ben :: customer where
  "ben = [(''name'', ''Ben''), (''age'', [])]"

definition cy :: customer where
  "cy = [(''name'', ''Cy'')]"

definition pat :: customer where
  "pat = [(''name'', ''Pat''), (''age'', '' 25 ''), (''country'', ''USA'')]"

definition lea :: customer where
  "lea = [(''name'', ''Lea''), (''country'', ''usa'')]"

section \<open>Reading padded digits\<close>

lemma digit_not_space: "is_digit ch \<Longrightarrow> \<not> is_space ch"
  by (auto simp: is_digit_def is_space_def Py_ISSPACE_def)

lemma digit_not_sign:
  "is_digit ch \<Longrightarrow> ch \<noteq> CHR ''+'' \<and> ch \<noteq> CHR ''-'' \<and> ch \<noteq> CHR ''_''"
  by (auto simp: is_digit_def)

lemma space_not_underscore: "is_space ch \<Longrightarrow> ch \<noteq> CHR ''_''"
  by (auto simp: is_space_def Py_ISSPACE_def)

lemma dropWhile_space_prefix:
  "\<forall>ch\<in>set ws. is_space ch \<Longrightarrow> r \<noteq> [] \<Longrightarrow> \<not> is_space (hd r) \<Longrightarrow>
   dropWhile is_space (ws @ r) = r"
  by (cases r) (simp_all add: dropWhile_append3)

text \<open>
  On a run of digits the loop computes the decimal value, counts the digits
  and stops at the first character after the run, provided that character is
  no underscore.
\<close>

lemma scan_digits_run:
  "\<forall>ch\<in>set ds. is_digit ch \<Longrightarrow> ds \<noteq> [] \<or> prev \<noteq> CHR ''_'' \<Longrightarrow>
   r = [] \<or> (\<not> is_digit (hd r) \<and> hd r \<noteq> CHR ''_'') \<Longrightarrow>
   scan_digits acc k prev (ds @ r) =
     Inr (foldl (\<lambda>acc ch. acc * 10 + digit_value ch) acc ds, k + length ds, r)"
proof (induction ds arbitrary: acc k prev)
  case Nil
  then show ?case by (cases r) auto
next
  case (Cons d ds)
  then have d: "is_digit d" by simp
  then have "d \<noteq> CHR ''_''" by (simp add: digit_not_sign)
  with Cons d show ?case by simp
qed

text \<open>What \<open>int\<close> makes of a run of digits with whitespace around it.\<close>

lemma py_int_padded_cases:
  assumes ds: "ds \<noteq> []" "\<forall>ch\<in>set ds. is_digit ch"
    and w1: "\<forall>ch\<in>set ws1. is_space ch" and w2: "\<forall>ch\<in>set ws2. is_space ch"
  shows "py_int (ws1 @ ds @ ws2) =
           (if max_str_digits < length ds then Inl ValueError else Inr (decimal ds))"
proof -
  from ds have hd: "is_digit (hd ds)" by (cases ds) simp_all
  have hd2: "hd (ds @ ws2) = hd ds" using ds by simp
  have s1: "dropWhile is_space (ws1 @ ds @ ws2) = ds @ ws2"
    using w1 ds hd by (intro dropWhile_space_prefix) (simp_all add: digit_not_space)
  have r: "ws2 = [] \<or> (\<not> is_digit (hd ws2) \<and> hd ws2 \<noteq> CHR ''_'')"
  proof (cases ws2)
    case Nil
    then show ?thesis by simp
  next
    case (Cons w ws)
    with w2 have "is_space w" by simp
    then show ?thesis using Cons digit_not_space space_not_underscore by auto
  qed
  have sc: "scan_digits 0 0 (CHR 0x00) (ds @ ws2) = Inr (decimal ds, length ds, ws2)"
    unfolding decimal_def using scan_digits_run[of ds "CHR 0x00" ws2 0 0] ds r by simp
  show ?thesis
    using ds hd digit_not_sign[OF hd] w2
    by (simp add: py_int_def Let_def s1 hd2 sc)
qed

lemma py_int_padded:
  assumes "ds \<noteq> []" "\<forall>ch\<in>set ds. is_digit ch" "length ds \<le> max_str_digits"
    and "\<forall>ch\<in>set ws1. is_space ch" and "\<forall>ch\<in>set ws2. is_space ch"
  shows "py_int (ws1 @ ds @ ws2) = Inr (decimal ds)"
  using py_int_padded_cases[OF assms(1,2,4,5)] assms(3) by simp

lemma py_int_too_many_digits:
  assumes "\<forall>ch\<in>set ds. is_digit ch" "max_str_digits < length ds"
    and "\<forall>ch\<in>set ws1. is_space ch" and "\<forall>ch\<in>set ws2. is_space ch"
  shows "py_int (ws1 @ ds @ ws2) = Inl ValueError"
proof -
  from assms(2) have "ds \<noteq> []" by auto
  from py_int_padded_cases[OF this assms(1,3,4)] assms(2) show ?thesis by simp
qed

section \<open>What the two comprehensions compute\<close>

text \<open>
  The age comprehension returns exactly when no record it visits makes \<open>int\<close>
  raise, and then it is the plain filter by the check's verdict.
\<close>

lemma age_filter_Inr:
  "age_filter m R = Inr out \<longleftrightarrow>
     (\<forall>c\<in>set R. age_check m c \<noteq> Inl ValueError) \<and>
     out = filter (\<lambda>c. age_check m c = Inr True) R"
proof (induction R arbitrary: out)
  case Nil
  show ?case by auto
next
  case (Cons c R)
  show ?case
  proof (cases "age_check m c")
    case (Inl e)
    then show ?thesis by (cases e) simp
  next
    case keep: (Inr keep)
    show ?thesis
    proof (cases "age_filter m R")
      case (Inl e)
      with Cons[of "filter (\<lambda>c. age_check m c = Inr True) R"] keep show ?thesis
        by auto
    next
      case (Inr kept)
      with Cons[of kept] keep show ?thesis by auto
    qed
  qed
qed

lemma age_filter_Inl:
  "age_filter m R = Inl e \<longleftrightarrow> (\<exists>c\<in>set R. age_check m c = Inl ValueError)"
proof (cases "age_filter m R")
  case (Inl e')
  then have "\<forall>out. age_filter m R \<noteq> Inr out" by simp
  then have "\<exists>c\<in>set R. age_check m c = Inl ValueError"
    unfolding age_filter_Inr by blast
  with Inl show ?thesis by (cases e; cases e') simp
next
  case (Inr out)
  then have "\<forall>c\<in>set R. age_check m c \<noteq> Inl ValueError"
    by (simp add: age_filter_Inr)
  with Inr show ?thesis by auto
qed

text \<open>The records the country step passes on to the age step.\<close>

lemma filter_customers_Some:
  "filter_customers R X (Some m) =
     age_filter m (if truthy X then filter (country_match (the X)) R else R)"
  by (cases X) (simp_all add: filter_customers_def truthy_def)

lemma filter_customers_None:
  "filter_customers R X None =
     Inr (if truthy X then filter (country_match (the X)) R else R)"
  by (cases X) (simp_all add: filter_customers_def truthy_def)

lemma age_check_missing_or_empty:
  "dict_get c ''age'' = None \<or> dict_get c ''age'' = Some [] \<Longrightarrow> age_check m c = Inr False"
  by (auto simp: age_check_def truthy_def)

lemma age_check_parsed:
  "dict_get c ''age'' = Some s \<Longrightarrow> py_int s = Inr n \<Longrightarrow> age_check m c = Inr (m \<le> n)"
  by (auto simp: age_check_def truthy_def py_int_def)

section \<open>Malformed ages\<close>

text \<open>
  C1 says that a record whose age is missing, empty or not a number is dropped
  silently whenever the minimum age is given, and that the filter never
  raises for it. For a missing or an empty age the code does so
  (\<open>filter_customers_missing_or_empty_age_excluded\<close> below). For an age such
  as \<open>thirty\<close> it does not: the guard \<open>c.get('age') and ...\<close> lets the text
  through to \<open>int\<close>, whose \<open>ValueError\<close> ends the call. The row
  \<open>3,Eve,thirty,USA\<close> with \<open>min_age = 21\<close>:
\<close>

theorem filter_customers_non_numeric_age_raises:
  "filter_customers [eve] None (Some 21) = Inl ValueError"
  by code_simp

lemma filter_customers_missing_or_empty_age_excluded:
  assumes "dict_get c ''age'' = None \<or> dict_get c ''age'' = Some []"
    and "filter_customers R X (Some m) = Inr out"
  shows "c \<notin> set out"
  using assms(2) age_check_missing_or_empty[OF assms(1), of m]
  by (auto simp: filter_customers_Some age_filter_Inr)

section \<open>The result is a subsequence of the input\<close>

lemma age_filter_subseq: "age_filter m R = Inr out \<Longrightarrow> subseq out R"
  by (simp add: age_filter_Inr)

text \<open>
  C2: whatever the criteria, a list returned by \<open>filter_customers\<close> is a
  subsequence of the input: its records are records of the input, unchanged,
  in the input's order, none of them twice unless the input has it twice.
\<close>

theorem filter_customers_subseq:
  "filter_customers R X Y = Inr out \<Longrightarrow> subseq out R"
proof (cases Y)
  case None
  assume "filter_customers R X Y = Inr out"
  with None show ?thesis by (auto simp: filter_customers_None)
next
  case (Some m)
  assume "filter_customers R X Y = Inr out"
  with Some have "subseq out (if truthy X then filter (country_match (the X)) R else R)"
    by (simp add: filter_customers_Some age_filter_subseq)
  moreover have "subseq (if truthy X then filter (country_match (the X)) R else R) R"
    by simp
  ultimately show ?thesis by (rule subseq_order.trans)
qed

theorem filter_customers_subseq_witness:
  "filter_customers [john, jane, bob, alice] (Some ''USA'') (Some 21) = Inr [john, alice]
   \<and> subseq [john, alice] [john, jane, bob, alice]"
proof -
  have h: "filter_customers [john, jane, bob, alice] (Some ''USA'') (Some 21) = Inr [john, alice]"
    by code_simp
  from h filter_customers_subseq[OF h] show ?thesis by simp
qed

section \<open>The country criterion\<close>

text \<open>
  C3 says that any text given as country, the empty text included, selects the
  records whose country equals it. With the empty text the code keeps every
  record instead: Jane, whose country is Canada, stays, although no record's
  country is empty.
\<close>

theorem empty_country_keeps_all_counterexample:
  "filter (country_match []) [jane] = [] \<and>
   filter_customers [jane] (Some []) None = Inr [jane]"
  by code_simp

text \<open>
  C3 as the code has it: a non-empty text given as country (and no minimum
  age) keeps exactly the records whose \<open>country\<close> field is present and equal
  to the text, character by character; the empty text keeps every record.
\<close>

theorem filter_customers_country_exact:
  "filter_customers R (Some X) None =
     Inr (if X = [] then R else filter (\<lambda>c. dict_get c ''country'' = Some X) R)"
proof -
  have "country_match X = (\<lambda>c. dict_get c ''country'' = Some X)"
    by (rule ext) (simp add: country_match_def)
  then show ?thesis by (simp add: filter_customers_def)
qed

theorem filter_customers_country_exact_witness:
  "filter_customers [john, lea, cy, jane, bob] (Some ''USA'') None = Inr [john, bob]"
  using filter_customers_country_exact [of "[john, lea, cy, jane, bob]" "''USA''"]
  by (simp add: dict_get_def john_def jane_def bob_def lea_def cy_def)

section \<open>Both criteria\<close>

text \<open>
  Where the age comprehension returns on the whole input, the two criteria
  are a conjunction.
\<close>

lemma filter_customers_conjunctive_if_defined:
  assumes B: "filter_customers R None (Some Y) = Inr B"
    and A: "filter_customers R (Some X) None = Inr A"
  shows "filter_customers R (Some X) (Some Y) = Inr (intersection_preserving_order A B)"
proof -
  from B have ok: "\<forall>c\<in>set R. age_check Y c \<noteq> Inl ValueError"
    and Bdef: "B = filter (\<lambda>c. age_check Y c = Inr True) R"
    by (simp_all add: filter_customers_Some truthy_def age_filter_Inr)
  from A have Adef: "A = (if X = [] then R else filter (country_match X) R)"
    by (auto simp: filter_customers_None truthy_def)
  then have sub: "set A \<subseteq> set R" by auto
  have "intersection_preserving_order A B = filter (\<lambda>c. age_check Y c = Inr True) A"
    unfolding intersection_preserving_order_def Bdef using sub
    by (intro filter_cong) auto
  moreover have "age_filter Y A = Inr (filter (\<lambda>c. age_check Y c = Inr True) A)"
    using ok sub by (auto simp: age_filter_Inr)
  moreover have "filter_customers R (Some X) (Some Y) = age_filter Y A"
    by (simp add: filter_customers_Some truthy_def Adef)
  ultimately show ?thesis by simp
qed

text \<open>
  C4 says that for every input, country \<open>X\<close> and minimum age \<open>Y\<close> the result
  with both criteria is the order-preserving intersection of the results with
  each criterion alone. The code runs the age check only on the records that
  passed the country check, so a record of another country with the age
  \<open>thirty\<close> is dropped when both criteria are given, while with the minimum
  age alone \<open>int\<close> raises for it and there is no result to intersect with.
\<close>

theorem filter_customers_conjunctivity_fails:
  "filter_customers [eva] (Some ''USA'') (Some 21) = Inr [] \<and>
   filter_customers [eva] None (Some 21) = Inl ValueError"
  by code_simp

section \<open>Identity and the empty country\<close>

text \<open>
  C5: with neither criterion given, \<open>filter_customers\<close> returns its input
  unchanged, order and multiplicity included.
\<close>

theorem filter_customers_identity:
  "filter_customers R None None = Inr R"
  by (simp add: filter_customers_def)

text \<open>
  C10: with the empty text as country and no minimum age, \<open>filter_customers\<close>
  returns its input unchanged: the country comprehension is not run.
\<close>

theorem filter_customers_empty_country:
  "filter_customers R (Some []) None = Inr R"
  by (simp add: filter_customers_def)

section \<open>Idempotence\<close>

lemma filter_customers_again:
  assumes "filter_customers R X Y = Inr out"
  shows "filter_customers out X Y = Inr out"
proof (cases Y)
  case None
  with assms show ?thesis by (auto simp: filter_customers_None)
next
  case (Some m)
  let ?R1 = "if truthy X then filter (country_match (the X)) R else R"
  from assms Some have ok: "\<forall>c\<in>set ?R1. age_check m c \<noteq> Inl ValueError"
    and out: "out = filter (\<lambda>c. age_check m c = Inr True) ?R1"
    by (simp_all add: filter_customers_Some age_filter_Inr)
  have same: "(if truthy X then filter (country_match (the X)) out else out) = out"
    unfolding out by (auto intro!: filter_cong)
  have "set out \<subseteq> set ?R1" unfolding out by auto
  with ok have "\<forall>c\<in>set out. age_check m c \<noteq> Inl ValueError" by blast
  moreover have "filter (\<lambda>c. age_check m c = Inr True) out = out"
    unfolding out by simp
  ultimately have "age_filter m out = Inr out" by (simp add: age_filter_Inr)
  with Some same show ?thesis by (simp add: filter_customers_Some)
qed

text \<open>
  C6: filtering the result of \<open>filter_customers\<close> again with the same criteria
  changes nothing. The second call is made on the first call's result, so an
  exception of the first call is the outcome of both sides.
\<close>

theorem filter_customers_idempotent:
  "(case filter_customers R X Y of
      Inl e \<Rightarrow> Inl e
    | Inr out \<Rightarrow> filter_customers out X Y) = filter_customers R X Y"
  by (cases "filter_customers R X Y") (simp_all add: filter_customers_again)

section \<open>The minimum age 0\<close>

text \<open>
  With \<open>min_age = 0\<close> the age comprehension runs: a record whose age reads as
  a number that is not negative passes its check, a record without an age or
  with an empty one does not.
\<close>

lemma age_check_zero:
  "dict_get c ''age'' = Some s \<Longrightarrow> py_int s = Inr n \<Longrightarrow> 0 \<le> n \<Longrightarrow> age_check 0 c = Inr True"
  by (simp add: age_check_parsed)

lemma filter_customers_zero_returns:
  assumes "filter_customers R None (Some 0) = Inr out"
    and "dict_get c ''age'' = Some s" and "py_int s = Inr n" and "0 \<le> n"
  shows "c \<in> set out \<longleftrightarrow> c \<in> set R"
  using assms(1) age_check_zero[OF assms(2-4)]
  by (auto simp: filter_customers_Some truthy_def age_filter_Inr)

text \<open>
  C7 says that \<open>min_age = 0\<close> is an active criterion under which every record
  with a valid age that is not negative passes and every record with a missing,
  empty or invalid age is excluded. The code does all of this but the last: an
  invalid age is not excluded, \<open>int\<close> raises for it. The first call shows the
  criterion at work, the second the exception.
\<close>

theorem filter_customers_min_age_zero_invalid_age_raises:
  "filter_customers [ann, ben, cy] None (Some 0) = Inr [ann] \<and>
   filter_customers [ann, eve] None (Some 0) = Inl ValueError"
  by code_simp

section \<open>Whitespace around the age\<close>

text \<open>
  C8 says that a record whose age has whitespace around the digits is
  excluded when the minimum age is given. \<open>int\<close> skips that whitespace: the
  age \<open>" 25 "\<close> reads as 25 and the record stays under \<open>min_age = 21\<close>.
\<close>

theorem padded_age_retained_counterexample:
  "filter_customers [pat] None (Some 21) = Inr [pat]"
  by code_simp

text \<open>
  C8 as the code has it: for a record whose age is a non-empty run of at most
  4300 digits with whitespace before or after it (the characters \<open>int\<close>
  skips: blank, tab, line feed, vertical tab, form feed, return, U+0085,
  U+00A0), the age check does not raise and judges the record by the number
  the digits denote; alone in the input the record is kept exactly when it
  passes the country check (if one is made) and the number is at least the
  minimum age; and in any input for which the call returns, the same two
  conditions decide whether the record is in the result.
\<close>

theorem filter_customers_padded_age:
  assumes "dict_get c ''age'' = Some (ws1 @ ds @ ws2)"
    and "ds \<noteq> []" and "\<forall>ch\<in>set ds. is_digit ch" and "length ds \<le> max_str_digits"
    and "\<forall>ch\<in>set ws1. is_space ch" and "\<forall>ch\<in>set ws2. is_space ch"
  shows "age_check m c = Inr (m \<le> decimal ds) \<and>
         filter_customers [c] X (Some m) =
           Inr (if (if truthy X then dict_get c ''country'' = X else True) \<and> m \<le> decimal ds
                then [c] else []) \<and>
         (filter_customers R X (Some m) = Inr out \<longrightarrow>
            (c \<in> set out \<longleftrightarrow>
               c \<in> set R \<and> (if truthy X then dict_get c ''country'' = X else True) \<and>
               m \<le> decimal ds))"
proof -
  have chk: "age_check m c = Inr (m \<le> decimal ds)"
    using assms by (simp add: age_check_parsed py_int_padded)
  have cm: "truthy X \<Longrightarrow> country_match (the X) c \<longleftrightarrow> dict_get c ''country'' = X"
    by (cases X) (simp_all add: country_match_def truthy_def)
  have one: "filter_customers [c] X (Some m) =
           Inr (if (if truthy X then dict_get c ''country'' = X else True) \<and> m \<le> decimal ds
                then [c] else [])"
    using chk cm by (simp add: filter_customers_Some)
  have many: "c \<in> set out \<longleftrightarrow>
               c \<in> set R \<and> (if truthy X then dict_get c ''country'' = X else True) \<and>
               m \<le> decimal ds"
    if "filter_customers R X (Some m) = Inr out"
    using that chk cm by (auto simp: filter_customers_Some age_filter_Inr)
  from chk one many show ?thesis by blast
qed

theorem filter_customers_padded_age_witness:
  "dict_get pat ''age'' = Some '' 25 '' \<and>
   filter_customers [john, pat] (Some ''USA'') (Some 21) = Inr [john, pat] \<and>
   age_check 21 pat = Inr True \<and>
   filter_customers [pat] (Some ''USA'') (Some 21) = Inr [pat]"
proof -
  have a: "dict_get pat ''age'' = Some ('' '' @ ''25'' @ '' '')"
    by (simp add: dict_get_def pat_def)
  have d: "''25'' \<noteq> []" "\<forall>ch\<in>set ''25''. is_digit ch" "length ''25'' \<le> max_str_digits"
    by (simp_all add: is_digit_def max_str_digits_def)
  have w: "\<forall>ch\<in>set '' ''. is_space ch"
    by (simp add: is_space_def Py_ISSPACE_def)
  have r: "filter_customers [john, pat] (Some ''USA'') (Some 21) = Inr [john, pat]"
    by code_simp
  have v: "decimal ''25'' = 25"
    by (simp add: decimal_def digit_value_def)
  have t: "truthy (Some ''USA'')" "dict_get pat ''country'' = Some ''USA''"
    by (simp_all add: truthy_def dict_get_def pat_def)
  from filter_customers_padded_age
         [OF a d w w, of 21 "Some ''USA''" "[john, pat]" "[john, pat]"] a r v t
  show ?thesis by simp
qed

text \<open>
  The other padded ages: beyond 4300 digits \<open>int\<close> raises, as it does for
  \<open>thirty\<close>.
\<close>

lemma age_check_padded_too_many_digits:
  assumes "dict_get c ''age'' = Some (ws1 @ ds @ ws2)"
    and "\<forall>ch\<in>set ds. is_digit ch" and "max_str_digits < length ds"
    and "\<forall>ch\<in>set ws1. is_space ch" and "\<forall>ch\<in>set ws2. is_space ch"
  shows "age_check m c = Inl ValueError"
proof -
  from assms(3) have "ws1 @ ds @ ws2 \<noteq> []" by auto
  with assms(1) py_int_too_many_digits[OF assms(2-5)] show ?thesis
    by (simp add: age_check_def truthy_def)
qed

section \<open>The status line\<close>

text \<open>
  C9 says that whenever a criterion is active, \<open>min_age = 0\<close> alone included,
  the status output names the active filters. \<open>filter_customers\<close> tests
  \<open>min_age is not None\<close> and filters with the bound 0 (the record with the
  empty age is dropped), but \<open>process_command\<close> tests \<open>if args.min_age:\<close>,
  which is false for 0: the line reads \<open>Filtered to 1 customers\<close> with no
  \<open>(min_age=0)\<close>.
\<close>

theorem process_command_min_age_zero_not_reported:
  "process_command
     \<lparr>input_path = ''customers.csv'', output_path = ''out.json'',
      country = None, min_age = Some 0\<rparr>
     [amy, ben] =
   (''Loaded 2 customers from customers.csv'' @ newline @
    ''Filtered to 1 customers'' @ newline @
    ''Results saved to out.json'' @ newline,
    Inr [amy])"
  by code_simp

text \<open>With any other bound, and with a country, the filters are named.\<close>

lemma process_command_filters_reported:
  "fst (process_command
     \<lparr>input_path = ''customers.csv'', output_path = ''out.json'',
      country = Some ''USA'', min_age = Some 21\<rparr>
     [john, jane, bob, alice]) =
   ''Loaded 4 customers from customers.csv'' @ newline @
   ''Filtered to 2 customers (country=USA, min_age=21)'' @ newline @
   ''Results saved to out.json'' @ newline"
  by code_simp

end
